theory Spec2Isabelle
  imports Main "HOL-Library.Word" "HOL-Library.Char_ord" "HOL-Library.List_Lexorder"
    "HOL-Library.Multiset"
begin

unbundle bit_operations_syntax

section \<open>Bytes, separators and the Go library functions the program calls\<close>

text \<open>
  A Go \<^verbatim>\<open>[]byte\<close> and a Go \<^verbatim>\<open>string\<close> are both sequences of bytes; \<^typ>\<open>char\<close> is an
  8-bit byte, so both are \<^typ>\<open>char list\<close>.  Go compares strings byte-wise and
  lexicographically, which is the order of \<^verbatim>\<open>List_Lexorder\<close> over \<^verbatim>\<open>Char_ord\<close>.
\<close>

type_synonym bytes = "char list"

definition NULL_SEP :: char where
  "NULL_SEP = CHR 0x00"

definition SPACE :: char where
  "SPACE = CHR 0x20"

definition LF :: char where
  "LF = CHR 0x0A"

text \<open>
  \<^verbatim>\<open>crypto/sha1\<close> and \<^verbatim>\<open>compress/zlib\<close> are not code of this repository: they are
  parameters of the model.  \<open>sha1_Sum\<close> is \<^verbatim>\<open>sha1.New(); Write; Sum(nil)\<close>.
  \<open>zlib_Write\<close> is what a \<^verbatim>\<open>zlib.Writer\<close> has emitted once it is closed.
  \<open>zlib_Read\<close> is \<^verbatim>\<open>zlib.NewReader\<close>: \<open>None\<close> when the stream header is rejected
  (the reader returned is nil), otherwise the bytes the reader yields before it
  reports end of file or a stream error.
\<close>

record lib =
  sha1_Sum :: "bytes \<Rightarrow> bytes"
  zlib_Write :: "bytes \<Rightarrow> bytes"
  zlib_Read :: "bytes \<Rightarrow> bytes option"

text \<open>\<^verbatim>\<open>strconv.FormatInt(n, 10)\<close> and \<^verbatim>\<open>fmt.Sprint\<close> of an integer: decimal digits.\<close>

definition digit_char :: "nat \<Rightarrow> char" where
  "digit_char n = ''0123456789'' ! n"

function FormatUint :: "nat \<Rightarrow> string" where
  "FormatUint n = (if n < 10 then [digit_char n] else FormatUint (n div 10) @ [digit_char (n mod 10)])"
  by pat_completeness auto
termination
  by (relation "measure (\<lambda>n. n)") auto

definition FormatInt :: "int \<Rightarrow> string" where
  "FormatInt i = (if i < 0 then CHR ''-'' # FormatUint (nat (- i)) else FormatUint (nat i))"

text \<open>\<^verbatim>\<open>hex.EncodeToString\<close>: two lowercase hexadecimal digits per byte.\<close>

definition hex_char :: "nat \<Rightarrow> char" where
  "hex_char n = ''0123456789abcdef'' ! n"

definition EncodeToString :: "bytes \<Rightarrow> string" where
  "EncodeToString bs =
     concat (map (\<lambda>b. [hex_char (of_char b div 16), hex_char (of_char b mod 16)]) bs)"

text \<open>
  \<^verbatim>\<open>bytes.Cut(s, sep)\<close> for a one-byte separator: the part before the first
  occurrence, the part after it, and whether it occurs.  When it does not occur
  the result is \<^verbatim>\<open>(s, nil, false)\<close>.
\<close>

definition Cut :: "bytes \<Rightarrow> char \<Rightarrow> bytes \<times> bytes \<times> bool" where
  "Cut s sep = (takeWhile (\<lambda>c. c \<noteq> sep) s, drop 1 (dropWhile (\<lambda>c. c \<noteq> sep) s), sep \<in> set s)"

text \<open>
  A Go slice expression \<^verbatim>\<open>s[lo:hi]\<close> panics unless \<^verbatim>\<open>0 <= lo <= hi <= len(s)\<close>;
  \<open>None\<close> is the panic.  \<^verbatim>\<open>s[:hi]\<close> is \<^verbatim>\<open>s[0:hi]\<close> and \<^verbatim>\<open>s[lo:]\<close> is
  \<^verbatim>\<open>s[lo:len(s)]\<close>.
\<close>

definition slice :: "bytes \<Rightarrow> int \<Rightarrow> int \<Rightarrow> bytes option" where
  "slice s lo hi =
     (if 0 \<le> lo \<and> lo \<le> hi \<and> hi \<le> int (length s)
      then Some (take (nat (hi - lo)) (drop (nat lo) s)) else None)"

definition len :: "bytes \<Rightarrow> int" where
  "len s = int (length s)"

section \<open>Failures\<close>

text \<open>
  The program reports an error by printing a diagnostic and calling
  \<^verbatim>\<open>os.Exit(1)\<close>; each diagnostic is a constructor.  A Go run-time panic is a
  failure of its own kind.
\<close>

datatype failure =
    CouldNotFindObject      \<comment> \<open>\<^verbatim>\<open>Could not find Git object\<close>\<close>
  | ErrorDecompressing      \<comment> \<open>\<^verbatim>\<open>Error decompressing Git object\<close>\<close>
  | ErrorReadingObject      \<comment> \<open>\<^verbatim>\<open>Error reading Git object\<close>\<close>
  | ErrorOpeningFile        \<comment> \<open>\<^verbatim>\<open>Error opening file\<close>\<close>
  | ErrorCopyingFile        \<comment> \<open>\<^verbatim>\<open>Error copying file\<close>\<close>
  | ErrorCreatingObjectFile \<comment> \<open>\<^verbatim>\<open>Error creating object file\<close>\<close>
  | ErrorReadingDirectory   \<comment> \<open>\<^verbatim>\<open>Error reading current working directory\<close>\<close>
  | ErrorReadingHEAD        \<comment> \<open>\<^verbatim>\<open>Error reading HEAD file\<close>\<close>
  | ErrorResolvingHEAD      \<comment> \<open>\<^verbatim>\<open>Error resolving HEAD ref\<close>\<close>
  | PanicSliceBounds        \<comment> \<open>run-time panic: slice bounds out of range\<close>
  | PanicNilDereference     \<comment> \<open>run-time panic: method of a nil interface value\<close>

text \<open>The error kinds of the specification, for the diagnostics of the read path.\<close>

datatype error_kind = NotFound | DecodeError | PersistenceError | InvalidInput | Crash

fun kind_of :: "failure \<Rightarrow> error_kind" where
  "kind_of CouldNotFindObject = NotFound"
| "kind_of ErrorDecompressing = DecodeError"
| "kind_of ErrorReadingObject = DecodeError"
| "kind_of ErrorOpeningFile = NotFound"
| "kind_of ErrorCopyingFile = PersistenceError"
| "kind_of ErrorCreatingObjectFile = PersistenceError"
| "kind_of ErrorReadingDirectory = PersistenceError"
| "kind_of ErrorReadingHEAD = PersistenceError"
| "kind_of ErrorResolvingHEAD = PersistenceError"
| "kind_of PanicSliceBounds = Crash"
| "kind_of PanicNilDereference = Crash"

section \<open>The repository directory and the operating system calls\<close>

text \<open>
  The state the program reads and writes below \<^verbatim>\<open>.git\<close>: the regular files
  there, by the path string the program opens them with, and the clock that
  \<^verbatim>\<open>time.Now().Unix()\<close> reads.  Directories are not recorded.
\<close>

record world =
  files :: "string \<rightharpoonup> bytes"
  clock :: int

datatype os_error = ErrExist | ErrNotExist | ErrOther

text \<open>\<^verbatim>\<open>os.MkdirAll\<close> fails when a regular file is in the way.\<close>

definition os_MkdirAll :: "world \<Rightarrow> string \<Rightarrow> os_error option" where
  "os_MkdirAll w p = (case files w p of Some _ \<Rightarrow> Some ErrOther | None \<Rightarrow> None)"

text \<open>\<^verbatim>\<open>os.OpenFile(p, O_RDWR|O_CREATE|O_EXCL, 0444)\<close>: the exclusive create.\<close>

definition os_OpenFile_excl :: "world \<Rightarrow> string \<Rightarrow> os_error option" where
  "os_OpenFile_excl w p = (case files w p of Some _ \<Rightarrow> Some ErrExist | None \<Rightarrow> None)"

text \<open>\<^verbatim>\<open>os.Open\<close> of a path below \<^verbatim>\<open>.git\<close>.\<close>

definition os_Open :: "world \<Rightarrow> string \<Rightarrow> os_error + bytes" where
  "os_Open w p = (case files w p of None \<Rightarrow> Inl ErrNotExist | Some b \<Rightarrow> Inr b)"

text \<open>\<^verbatim>\<open>os.ReadFile\<close> returns the data and the error together; the data is empty
  when the file cannot be opened.\<close>

definition os_ReadFile :: "world \<Rightarrow> string \<Rightarrow> bytes \<times> os_error option" where
  "os_ReadFile w p = (case files w p of None \<Rightarrow> ([], Some ErrNotExist) | Some b \<Rightarrow> (b, None))"

section \<open>The working directory\<close>

text \<open>
  What \<^verbatim>\<open>os.ReadDir\<close>, \<^verbatim>\<open>DirEntry.Info\<close> and \<^verbatim>\<open>os.Open\<close> see of the working
  directory: a regular file has permission bits and contents, a directory has
  permission bits and its entries by name, a symbolic link has what opening the
  path (which follows the link) leads to.  The walk of \<^verbatim>\<open>WriteTree\<close> skips
  \<^verbatim>\<open>.git\<close>, so the objects it writes are not among the files it reads.
\<close>

datatype link_target = Dangling | ToFile bytes | ToDir

datatype node =
    File "32 word" bytes
  | Dir "32 word" "(string \<times> node) list"
  | Symlink link_target

definition ModeDir :: "32 word" where
  "ModeDir = push_bit 31 1"

definition ModeSymlink :: "32 word" where
  "ModeSymlink = push_bit 27 1"

definition ModePerm :: "32 word" where
  "ModePerm = 511"

text \<open>\<^verbatim>\<open>FileInfo.Mode()\<close> of an entry, as \<^verbatim>\<open>lstat\<close> gives it.\<close>

fun Info_Mode :: "node \<Rightarrow> 32 word" where
  "Info_Mode (File p c) = p AND ModePerm"
| "Info_Mode (Dir p es) = ModeDir OR (p AND ModePerm)"
| "Info_Mode (Symlink t) = ModeSymlink OR ModePerm"

definition Perm :: "32 word \<Rightarrow> 32 word" where
  "Perm m = m AND ModePerm"

definition Info_IsDir :: "node \<Rightarrow> bool" where
  "Info_IsDir n = (Info_Mode n AND ModeDir \<noteq> 0)"

section \<open>The object store\<close>

text \<open>\<^verbatim>\<open>GetSha\<close>: the write of a hash never fails.\<close>

definition GetSha :: "lib \<Rightarrow> bytes \<Rightarrow> bytes" where
  "GetSha L buf = sha1_Sum L buf"

text \<open>
  \<^verbatim>\<open>WriteObject(name, contents)\<close>.  \<^verbatim>\<open>name[:2]\<close> panics on a name shorter than two
  bytes.  The exclusive create that finds the file returns without writing.  The
  result of \<^verbatim>\<open>io.Copy\<close> is not looked at.
\<close>

definition WriteObject :: "lib \<Rightarrow> world \<Rightarrow> string \<Rightarrow> bytes \<Rightarrow> failure + world" where
  "WriteObject L w name contents =
     (case slice name 0 2 of
        None \<Rightarrow> Inl PanicSliceBounds
      | Some name_prefix \<Rightarrow>
          let objectPath = ''.git/objects/'' @ name_prefix in
          case os_MkdirAll w objectPath of
            Some e \<Rightarrow> Inl ErrorCreatingObjectFile
          | None \<Rightarrow>
              (case slice name 2 (len name) of
                 None \<Rightarrow> Inl PanicSliceBounds
               | Some name_rest \<Rightarrow>
                   let objectPath = objectPath @ ''/'' @ name_rest in
                   case os_OpenFile_excl w objectPath of
                     Some ErrExist \<Rightarrow> Inr w
                   | Some e \<Rightarrow> Inl ErrorCreatingObjectFile
                   | None \<Rightarrow>
                       Inr (w\<lparr>files := (files w)(objectPath \<mapsto> zlib_Write L contents)\<rparr>)))"

text \<open>
  \<^verbatim>\<open>os.Open\<close> of a path in the working directory follows a symbolic link;
  reading a directory that was opened fails.
\<close>

datatype handle = FileHandle bytes | DirHandle

fun open_node :: "node option \<Rightarrow> os_error + handle" where
  "open_node None = Inl ErrNotExist"
| "open_node (Some (File p c)) = Inr (FileHandle c)"
| "open_node (Some (Dir p es)) = Inr DirHandle"
| "open_node (Some (Symlink Dangling)) = Inl ErrNotExist"
| "open_node (Some (Symlink (ToFile c))) = Inr (FileHandle c)"
| "open_node (Some (Symlink ToDir)) = Inr DirHandle"

fun Size :: "handle \<Rightarrow> int" where
  "Size (FileHandle c) = int (length c)"
| "Size DirHandle = 4096"

fun io_Copy :: "handle \<Rightarrow> os_error + bytes" where
  "io_Copy (FileHandle c) = Inr c"
| "io_Copy DirHandle = Inl ErrOther"

text \<open>
  \<^verbatim>\<open>WriteBlob(filepath)\<close>, given what is at \<^verbatim>\<open>filepath\<close> (\<open>None\<close>: nothing).
  \<^verbatim>\<open>fileinfo.Size()\<close> of a regular file is the number of bytes that
  \<^verbatim>\<open>io.Copy\<close> then reads.
\<close>

definition WriteBlob :: "lib \<Rightarrow> world \<Rightarrow> node option \<Rightarrow> failure + (bytes \<times> world)" where
  "WriteBlob L w at_path =
     (case open_node at_path of
        Inl e \<Rightarrow> Inl ErrorOpeningFile
      | Inr file \<Rightarrow>
          let objectSize = FormatInt (Size file) in
          case io_Copy file of
            Inl e \<Rightarrow> Inl ErrorCopyingFile
          | Inr data \<Rightarrow>
              let bbuf = ''blob '' @ objectSize @ [NULL_SEP] @ data;
                  hashSum = GetSha L bbuf
              in case WriteObject L w (EncodeToString hashSum) bbuf of
                   Inl e \<Rightarrow> Inl e
                 | Inr w' \<Rightarrow> Inr (hashSum, w'))"

section \<open>Reading objects\<close>

text \<open>
  The loop of \<^verbatim>\<open>CatFile\<close> reads bytes up to and including the first NUL; the
  end of the stream before a NUL is the exit \<^verbatim>\<open>Error reading Git object\<close>.
\<close>

fun read_past_NUL :: "bytes \<Rightarrow> failure + bytes" where
  "read_past_NUL [] = Inl ErrorReadingObject"
| "read_past_NUL (currentByte # rest) =
     (if currentByte \<noteq> CHR 0x00 then read_past_NUL rest else Inr rest)"

text \<open>
  \<^verbatim>\<open>CatFile(hashSum, output)\<close> with a writer that is not nil: the result is what
  \<^verbatim>\<open>io.Copy\<close> writes to it.  \<^verbatim>\<open>defer reader.Close()\<close> stands before the check of
  the error of \<^verbatim>\<open>zlib.NewReader\<close>, and evaluating a method of the nil reader
  panics.
\<close>

definition CatFile :: "lib \<Rightarrow> world \<Rightarrow> string \<Rightarrow> failure + bytes" where
  "CatFile L w hashSum =
     (case slice hashSum 0 2 of
        None \<Rightarrow> Inl PanicSliceBounds
      | Some shaPrefix \<Rightarrow>
         (case slice hashSum 2 (len hashSum) of
            None \<Rightarrow> Inl PanicSliceBounds
          | Some shaAfterPrefix \<Rightarrow>
              let filename = ''.git/objects/'' @ shaPrefix @ ''/'' @ shaAfterPrefix in
              case os_Open w filename of
                Inl e \<Rightarrow> Inl CouldNotFindObject
              | Inr file \<Rightarrow>
                  (case zlib_Read L file of
                     None \<Rightarrow> Inl PanicNilDereference
                   | Some stream \<Rightarrow> read_past_NUL stream)))"

text \<open>
  The loop of \<^verbatim>\<open>LSTreeCmd\<close>.  The result is the lines printed and how the loop
  ended: \<open>None\<close> when the body was used up, the panic of \<^verbatim>\<open>body[20:]\<close> otherwise.
\<close>

function ls_loop :: "bytes \<Rightarrow> string list \<Rightarrow> string list \<times> failure option" where
  "ls_loop body printed =
     (if len body > 0 then
        let info = fst (Cut body NULL_SEP);
            body1 = fst (snd (Cut body NULL_SEP));
            fileName = fst (snd (Cut info SPACE));
            printed1 = printed @ [fileName]
        in case slice body1 20 (len body1) of
             None \<Rightarrow> (printed1, Some PanicSliceBounds)
           | Some body2 \<Rightarrow> ls_loop body2 printed1
      else (printed, None))"
  by pat_completeness auto
termination
proof (relation "measure (\<lambda>(body, printed). length body)")
  show "wf (measure (\<lambda>(body, printed). length body))" by simp
next
  fix body :: bytes and printed :: "string list" and info body1 fileName printed1 body2
  assume pos: "0 < len body"
    and b1: "body1 = fst (snd (Cut body NULL_SEP))"
    and sl: "slice body1 20 (len body1) = Some body2"
  have "length body1 \<le> length body"
    unfolding b1 Cut_def using length_dropWhile_le [of "\<lambda>c. c \<noteq> NULL_SEP" body] by simp
  moreover have "length body2 + 20 = length body1"
    using sl by (auto simp: slice_def len_def split: if_splits)
  ultimately show "((body2, printed1), (body, printed)) \<in> measure (\<lambda>(body, printed). length body)"
    by simp
qed

definition LSTreeCmd :: "lib \<Rightarrow> world \<Rightarrow> string \<Rightarrow> string list \<times> failure option" where
  "LSTreeCmd L w sha =
     (case slice sha 0 2 of
        None \<Rightarrow> ([], Some PanicSliceBounds)
      | Some shaPrefix \<Rightarrow>
         (case slice sha 2 (len sha) of
            None \<Rightarrow> ([], Some PanicSliceBounds)
          | Some shaAfterPrefix \<Rightarrow>
              let filename = ''.git/objects/'' @ shaPrefix @ ''/'' @ shaAfterPrefix in
              case os_Open w filename of
                Inl e \<Rightarrow> ([], Some CouldNotFindObject)
              | Inr file \<Rightarrow>
                  (case zlib_Read L file of
                     None \<Rightarrow> ([], Some ErrorDecompressing)
                   | Some buf \<Rightarrow> ls_loop (fst (snd (Cut buf NULL_SEP))) [])))"

section \<open>Building trees\<close>

record TreeFile =
  Name :: string
  Mode :: int
  IsDir :: bool

text \<open>The mode that \<^verbatim>\<open>WriteTree\<close> gives an entry.\<close>

definition entry_mode :: "node \<Rightarrow> int" where
  "entry_mode fileinfo =
     (if Info_Mode fileinfo AND ModeSymlink \<noteq> 0 then 120000
      else if Perm (Info_Mode fileinfo) mod 2 \<noteq> 0 \<and> \<not> Info_IsDir fileinfo then 100755
      else if Info_IsDir fileinfo then 40000
      else 100644)"

text \<open>The first loop of \<^verbatim>\<open>WriteTree\<close>: one line per entry that is not \<^verbatim>\<open>.git\<close>.\<close>

definition tree_lines :: "(string \<times> node) list \<Rightarrow> TreeFile list" where
  "tree_lines entries =
     map (\<lambda>(name, fileinfo).
            \<lparr>Name = name, Mode = entry_mode fileinfo, IsDir = Info_IsDir fileinfo\<rparr>)
         (filter (\<lambda>(name, fileinfo). name \<noteq> ''.git'') entries)"

text \<open>What the second loop of \<^verbatim>\<open>WriteTree\<close> writes to \<^verbatim>\<open>body\<close> before the hash.\<close>

definition line_prefix :: "TreeFile \<Rightarrow> bytes" where
  "line_prefix line = FormatInt (Mode line) @ [SPACE] @ Name line @ [NULL_SEP]"

lemma size_map_of:
  "map_of es n = Some nd \<Longrightarrow> size nd < size_list (size_prod (\<lambda>_. 0) size) es"
  by (induction es) (auto split: if_splits)

text \<open>
  \<^verbatim>\<open>WriteTree(dir)\<close>, given what is at \<^verbatim>\<open>dir\<close>, and its second loop
  \<open>tree_body\<close>, which opens \<^verbatim>\<open>dir + "/" + line.Name\<close>: the entry of that name.
  \<^verbatim>\<open>os.ReadDir\<close> fails on what is not a directory.  \<^verbatim>\<open>sort.Slice\<close> is not
  stable; \<open>sort_key\<close> agrees with it when the names differ from each other, as
  the names of one directory do.
\<close>

function WriteTree :: "lib \<Rightarrow> world \<Rightarrow> node option \<Rightarrow> failure + (bytes \<times> world)"
  and tree_body :: "lib \<Rightarrow> world \<Rightarrow> (string \<times> node) list \<Rightarrow> TreeFile list \<Rightarrow> bytes
                      \<Rightarrow> failure + (bytes \<times> world)" where
  "WriteTree L w None = Inl ErrorReadingDirectory"
| "WriteTree L w (Some (File p c)) = Inl ErrorReadingDirectory"
| "WriteTree L w (Some (Symlink t)) = Inl ErrorReadingDirectory"
| "WriteTree L w (Some (Dir p entries)) =
     (case tree_body L w entries (sort_key Name (tree_lines entries)) [] of
        Inl e \<Rightarrow> Inl e
      | Inr (body, w1) \<Rightarrow>
          let header = ''tree '' @ FormatInt (len body) @ [NULL_SEP];
              headerAndBody = header @ body;
              hash = GetSha L headerAndBody
          in case WriteObject L w1 (EncodeToString hash) headerAndBody of
               Inl e \<Rightarrow> Inl e
             | Inr w2 \<Rightarrow> Inr (hash, w2))"
| "tree_body L w entries [] body = Inr (body, w)"
| "tree_body L w entries (line # rest) body =
     (case (if IsDir line then WriteTree L w (map_of entries (Name line))
            else WriteBlob L w (map_of entries (Name line))) of
        Inl e \<Rightarrow> Inl e
      | Inr (hash, w1) \<Rightarrow> tree_body L w1 entries rest (body @ line_prefix line @ hash))"
  by pat_completeness auto
termination
proof (relation "inv_image (less_than <*lex*> less_than)
    (\<lambda>x. case x of
        Inl (L, w, at_dir) \<Rightarrow> (case at_dir of None \<Rightarrow> 0 | Some nd \<Rightarrow> size nd, 0::nat)
      | Inr (L, w, entries, lines, body) \<Rightarrow>
          (size_list (size_prod (\<lambda>_. 0) size) entries, Suc (length lines)))")
  show "wf (inv_image (less_than <*lex*> less_than)
    (\<lambda>x. case x of
        Inl (L, w, at_dir) \<Rightarrow> (case at_dir of None \<Rightarrow> 0 | Some nd \<Rightarrow> size nd, 0::nat)
      | Inr (L, w, entries, lines, body) \<Rightarrow>
          (size_list (size_prod (\<lambda>_. 0) size) entries, Suc (length lines))))"
    by (intro wf_inv_image wf_lex_prod wf_less_than)
qed (auto split: option.splits dest: size_map_of)

section \<open>Commits\<close>

text \<open>
  \<^verbatim>\<open>CommitTree\<close> reads the clock; the time zone, the author and the mail address
  are constants of the function.  \<open>commit_body\<close> is what it writes to \<^verbatim>\<open>body\<close>.
\<close>

definition commit_body :: "int \<Rightarrow> string \<Rightarrow> string \<Rightarrow> string \<Rightarrow> bytes" where
  "commit_body now treeSHA parentCommitSHA msg =
     (let timestamp = FormatInt now;
          timezoneOffset = ''+0100'';
          author = ''Florian Laporte'';
          authorMail = ''<florianl@florianl.dev>''
      in (''tree '' @ treeSHA @ [LF] @ ''parent '' @ parentCommitSHA @ [LF])
         @ (''author '' @ author @ '' '' @ authorMail @ '' '' @ timestamp @ '' ''
              @ timezoneOffset @ [LF])
         @ (''committer '' @ author @ '' '' @ authorMail @ '' '' @ timestamp @ '' ''
              @ timezoneOffset @ [LF, LF])
         @ msg
         @ [LF])"

definition CommitTree :: "lib \<Rightarrow> world \<Rightarrow> string \<Rightarrow> string \<Rightarrow> string \<Rightarrow> failure + (bytes \<times> world)" where
  "CommitTree L w treeSHA parentCommitSHA msg =
     (let body = commit_body (clock w) treeSHA parentCommitSHA msg;
          header = ''commit '' @ FormatInt (len body) @ [NULL_SEP];
          headerAndBody = header @ body;
          hash = GetSha L headerAndBody
      in case WriteObject L w (EncodeToString hash) headerAndBody of
           Inl e \<Rightarrow> Inl e
         | Inr w1 \<Rightarrow> Inr (hash, w1))"

text \<open>
  \<^verbatim>\<open>Commit(msg)\<close>, given what is at \<^verbatim>\<open>.\<close> for \<^verbatim>\<open>WriteTree\<close>.  The contents of
  the branch file are sliced before the error of reading it is looked at.
\<close>

definition Commit :: "lib \<Rightarrow> world \<Rightarrow> node option \<Rightarrow> string \<Rightarrow> failure + (bytes \<times> world)" where
  "Commit L w at_dot msg =
     (case WriteTree L w at_dot of
        Inl e \<Rightarrow> Inl e
      | Inr (tree_hash, w1) \<Rightarrow>
          let treeSHA = EncodeToString tree_hash in
          case os_ReadFile w1 ''.git/HEAD'' of
            (headFile, Some e) \<Rightarrow> Inl ErrorReadingHEAD
          | (headFile, None) \<Rightarrow>
              (case slice headFile 5 (len headFile - 1) of
                 None \<Rightarrow> Inl PanicSliceBounds
               | Some ref \<Rightarrow>
                   let headRefPath = ''.git/'' @ ref in
                   case os_ReadFile w1 headRefPath of
                     (HEADsha, err) \<Rightarrow>
                       (case slice HEADsha 0 (len HEADsha - 1) of
                          None \<Rightarrow> Inl PanicSliceBounds
                        | Some HEADsha1 \<Rightarrow>
                            (case err of
                               Some e \<Rightarrow> Inl ErrorResolvingHEAD
                             | None \<Rightarrow> CommitTree L w1 treeSHA HEADsha1 msg))))"

text \<open>\<^verbatim>\<open>InitCmd\<close> writes \<^verbatim>\<open>.git/HEAD\<close>; its directories are not recorded.\<close>

definition InitCmd :: "world \<Rightarrow> world" where
  "InitCmd w = w\<lparr>files := (files w)(''.git/HEAD'' \<mapsto> ''ref: refs/heads/master'' @ [LF])\<rparr>"

section \<open>The encoding of the specification, and a library instance for examples\<close>

text \<open>
  The canonical encoding as the specification words it:
  \<^verbatim>\<open>"<kind> <len(payload)>" + NUL + payload\<close>.
\<close>

definition spec_encode :: "string \<Rightarrow> bytes \<Rightarrow> bytes" where
  "spec_encode kind payload =
     kind @ '' '' @ FormatInt (int (length payload)) @ [CHR 0x00] @ payload"

text \<open>Where the object named \<open>name\<close> (a hexadecimal id) is kept.\<close>

definition object_dir :: "string \<Rightarrow> string" where
  "object_dir name = ''.git/objects/'' @ take 2 name"

definition object_path :: "string \<Rightarrow> string" where
  "object_path name = ''.git/objects/'' @ take 2 name @ ''/'' @ drop 2 name"

text \<open>
  \<^verbatim>\<open>put(kind, payload)\<close> as the specification words it: the canonical encoding,
  its digest as the id, and the compressed encoding kept under the id unless an
  object is there already.  The program has no function of this name;
  \<open>WriteBlob\<close>, \<open>WriteTree\<close> and \<open>CommitTree\<close> each end with these steps.
\<close>

definition spec_put :: "lib \<Rightarrow> world \<Rightarrow> string \<Rightarrow> bytes \<Rightarrow> failure + (bytes \<times> world)" where
  "spec_put L w kind payload =
     (let canonical = spec_encode kind payload;
          ident = sha1_Sum L canonical
      in case WriteObject L w (EncodeToString ident) canonical of
           Inl e \<Rightarrow> Inl e
         | Inr w' \<Rightarrow> Inr (ident, w'))"

text \<open>
  A tree entry as the specification words it: \<^verbatim>\<open>"<mode> <name>"\<close>, a NUL, then
  the raw digest of the child; a tree payload is the entries one after the other.
  \<open>with_ids\<close> pairs the lines of \<open>WriteTree\<close> with the ids of their children.
\<close>

definition spec_entry :: "int \<times> string \<times> bytes \<Rightarrow> bytes" where
  "spec_entry e = (case e of (mode, name, child_id) \<Rightarrow>
      FormatInt mode @ '' '' @ name @ [CHR 0x00] @ child_id)"

definition spec_tree_payload :: "(int \<times> string \<times> bytes) list \<Rightarrow> bytes" where
  "spec_tree_payload ents = concat (map spec_entry ents)"

definition with_ids :: "TreeFile list \<Rightarrow> bytes list \<Rightarrow> (int \<times> string \<times> bytes) list" where
  "with_ids lines ids = map2 (\<lambda>line child_id. (Mode line, Name line, child_id)) lines ids"

text \<open>
  An instance of the library parameters on which the model can be evaluated:
  a 20-byte digest and a compression that decompresses to its input.  It stands
  for neither SHA-1 nor zlib.
\<close>

definition example_lib :: lib where
  "example_lib =
     \<lparr>sha1_Sum = (\<lambda>b. take 20 (rev b @ replicate 20 (CHR ''z''))),
      zlib_Write = (\<lambda>b. CHR ''Z'' # b),
      zlib_Read = (\<lambda>b. case b of [] \<Rightarrow> None
                          | c # r \<Rightarrow> if c = CHR ''Z'' then Some r else None)\<rparr>"

definition empty_world :: world where
  "empty_world = \<lparr>files = Map.empty, clock = 1700000000\<rparr>"

section \<open>Basic facts\<close>

declare FormatUint.simps [simp del]
declare ls_loop.simps [simp del]

lemma length_EncodeToString: "length (EncodeToString bs) = 2 * length bs"
  by (induction bs) (simp_all add: EncodeToString_def)

lemma slice_prefix: "2 \<le> length name \<Longrightarrow> slice name 0 2 = Some (take 2 name)"
  by (simp add: slice_def)

lemma slice_rest: "2 \<le> length name \<Longrightarrow> slice name 2 (len name) = Some (drop 2 name)"
  by (simp add: slice_def len_def)

lemma slice_short: "length name < 2 \<Longrightarrow> slice name 0 2 = None"
  by (simp add: slice_def)

lemma example_lib_length: "\<forall>b. length (sha1_Sum example_lib b) = 20"
  by (simp add: example_lib_def min_def)

lemma WriteObject_eq:
  assumes "2 \<le> length name" and "files w (object_dir name) = None"
  shows "WriteObject L w name contents =
           Inr (if files w (object_path name) = None
                then w\<lparr>files := (files w)(object_path name \<mapsto> zlib_Write L contents)\<rparr>
                else w)"
  using assms
  by (auto simp: WriteObject_def slice_prefix slice_rest os_MkdirAll_def os_OpenFile_excl_def
      object_dir_def object_path_def split: option.splits)

lemma FormatUint_digit: "n < 10 \<Longrightarrow> FormatUint n = [digit_char n]"
  by (simp add: FormatUint.simps)

lemma FormatInt_6: "FormatInt 6 = ''6''"
  by (simp add: FormatInt_def FormatUint_digit digit_char_def)

lemma digit_char_not_NUL: "n < 10 \<Longrightarrow> digit_char n \<noteq> CHR 0x00"
proof -
  assume "n < 10"
  then have "digit_char n \<in> set ''0123456789''"
    unfolding digit_char_def by (intro nth_mem) simp
  then show ?thesis by auto
qed

lemma FormatUint_no_NUL: "CHR 0x00 \<notin> set (FormatUint n)"
proof (induction n rule: FormatUint.induct)
  case (1 n)
  show ?case
  proof (cases "n < 10")
    case True
    then show ?thesis
      using digit_char_not_NUL [of n] by (auto simp: FormatUint.simps [of n])
  next
    case False
    then have "CHR 0x00 \<notin> set (FormatUint (n div 10))" using 1 by simp
    moreover have "digit_char (n mod 10) \<noteq> CHR 0x00" by (rule digit_char_not_NUL) simp
    ultimately show ?thesis using False by (auto simp: FormatUint.simps [of n])
  qed
qed

lemma FormatInt_no_NUL: "CHR 0x00 \<notin> set (FormatInt i)"
  by (simp add: FormatInt_def FormatUint_no_NUL)

lemma read_past_NUL_append:
  "CHR 0x00 \<notin> set hdr \<Longrightarrow> read_past_NUL (hdr @ CHR 0x00 # payload) = Inr payload"
  by (induction hdr) auto

lemma read_past_NUL_none:
  "CHR 0x00 \<notin> set s \<Longrightarrow> read_past_NUL s = Inl ErrorReadingObject"
  by (induction s) auto

lemma CatFile_eq:
  assumes "2 \<le> length name"
  shows "CatFile L w name =
     (case files w (object_path name) of
        None \<Rightarrow> Inl CouldNotFindObject
      | Some file \<Rightarrow> (case zlib_Read L file of
                       None \<Rightarrow> Inl PanicNilDereference
                     | Some stream \<Rightarrow> read_past_NUL stream))"
  using assms
  by (simp add: CatFile_def slice_prefix slice_rest os_Open_def object_path_def
      split: option.splits)

lemma WriteBlob_File:
  "WriteBlob L w (Some (File perm P)) = spec_put L w ''blob'' P"
  by (simp add: WriteBlob_def spec_put_def GetSha_def spec_encode_def NULL_SEP_def Let_def
      split: sum.splits)

lemma CommitTree_put:
  "CommitTree L w t p m = spec_put L w ''commit'' (commit_body (clock w) t p m)"
  by (simp add: CommitTree_def spec_put_def GetSha_def spec_encode_def NULL_SEP_def Let_def
      len_def split: sum.splits)

lemma WriteTree_put:
  "WriteTree L w (Some (Dir perm entries)) =
     (case tree_body L w entries (sort_key Name (tree_lines entries)) [] of
        Inl e \<Rightarrow> Inl e
      | Inr (body, w1) \<Rightarrow> spec_put L w1 ''tree'' body)"
  by (simp add: spec_put_def GetSha_def spec_encode_def NULL_SEP_def Let_def
      len_def split: sum.splits prod.splits)

lemma spec_put_eq:
  assumes "\<forall>b. length (sha1_Sum L b) = 20"
    and "files w (object_dir (EncodeToString (sha1_Sum L (spec_encode kind P)))) = None"
  shows "spec_put L w kind P =
     Inr (sha1_Sum L (spec_encode kind P),
          if files w (object_path (EncodeToString (sha1_Sum L (spec_encode kind P)))) = None
          then w\<lparr>files := (files w)(object_path (EncodeToString (sha1_Sum L (spec_encode kind P)))
                              \<mapsto> zlib_Write L (spec_encode kind P))\<rparr>
          else w)"
proof -
  have n: "2 \<le> length (EncodeToString (sha1_Sum L (spec_encode kind P)))"
    using assms(1) by (simp add: length_EncodeToString)
  show ?thesis
    unfolding spec_put_def Let_def WriteObject_eq [OF n assms(2)] by simp
qed

lemma spec_put_get:
  assumes sha: "\<forall>b. length (sha1_Sum L b) = 20"
    and z: "\<forall>b. zlib_Read L (zlib_Write L b) = Some b"
    and k: "CHR 0x00 \<notin> set kind"
    and dir: "files w (object_dir (EncodeToString (sha1_Sum L (spec_encode kind P)))) = None"
    and obj: "files w (object_path (EncodeToString (sha1_Sum L (spec_encode kind P))))
                \<in> {None, Some (zlib_Write L (spec_encode kind P))}"
  shows "\<exists>w'. spec_put L w kind P = Inr (sha1_Sum L (spec_encode kind P), w')
            \<and> CatFile L w' (EncodeToString (sha1_Sum L (spec_encode kind P))) = Inr P"
proof -
  let ?enc = "spec_encode kind P"
  let ?name = "EncodeToString (sha1_Sum L ?enc)"
  have n: "2 \<le> length ?name"
    using sha by (simp add: length_EncodeToString)
  have hdr: "CHR 0x00 \<notin> set (kind @ '' '' @ FormatInt (int (length P)))"
    using k by (simp add: FormatInt_no_NUL)
  have r: "read_past_NUL ?enc = Inr P"
    using read_past_NUL_append [OF hdr, of P] by (simp add: spec_encode_def)
  show ?thesis
    using obj z r by (auto simp: spec_put_eq [OF sha dir] CatFile_eq [OF n])
qed

lemma example_lib_zlib: "\<forall>b. zlib_Read example_lib (zlib_Write example_lib b) = Some b"
  by (simp add: example_lib_def)

lemma sort_key_perm:
  assumes "mset xs = mset ys" and "distinct (map f xs)"
  shows "sort_key f xs = sort_key f ys"
proof -
  have sx: "set xs = set ys" using assms(1) by (rule mset_eq_setD)
  have "mset (map f xs) = mset (map f ys)"
    using assms(1) by simp
  then have dy: "distinct (map f ys)"
    using assms(2) mset_eq_imp_distinct_iff by blast
  have "map f (sort_key f xs) = map f (sort_key f ys)"
  proof (rule sorted_distinct_set_unique)
    show "distinct (map f (sort_key f xs))" using assms(2) by (simp add: distinct_map)
    show "distinct (map f (sort_key f ys))" using dy by (simp add: distinct_map)
    show "set (map f (sort_key f xs)) = set (map f (sort_key f ys))" using sx by simp
  qed simp_all
  moreover have "inj_on f (set (sort_key f xs) \<union> set (sort_key f ys))"
    using assms(2) sx by (simp add: distinct_map)
  ultimately show ?thesis by (simp add: inj_on_map_eq_map)
qed

lemma Name_tree_lines:
  "map Name (tree_lines entries) = filter (\<lambda>n. n \<noteq> ''.git'') (map fst entries)"
  by (induction entries) (auto simp: tree_lines_def)

lemma mset_tree_lines: "mset es' = mset es \<Longrightarrow> mset (tree_lines es') = mset (tree_lines es)"
  by (simp add: tree_lines_def)

lemma map_of_perm:
  assumes "mset es' = mset es" and "distinct (map fst es)"
  shows "map_of es' = map_of es"
proof -
  have "mset (map fst es') = mset (map fst es)"
    using assms(1) by simp
  then have "distinct (map fst es')"
    using assms(2) mset_eq_imp_distinct_iff by blast
  moreover have "set es' = set es"
    using assms(1) by (rule mset_eq_setD)
  ultimately show ?thesis
    using assms(2) by (simp add: map_of_inject_set)
qed

lemma tree_body_map_of:
  "map_of es' = map_of es \<Longrightarrow> tree_body L w es' lines body = tree_body L w es lines body"
proof (induction lines arbitrary: w body)
  case Nil
  show ?case by simp
next
  case (Cons line rest)
  show ?case
    unfolding tree_body.simps Cons.prems
    by (simp only: Cons.IH [OF Cons.prems])
qed

lemma line_prefix_spec: "line_prefix line @ h = spec_entry (Mode line, Name line, h)"
  by (simp add: line_prefix_def spec_entry_def SPACE_def NULL_SEP_def)

lemma tree_body_payload:
  "tree_body L w es lines body0 = Inr (body, w') \<Longrightarrow>
     \<exists>ids. length ids = length lines \<and> body = body0 @ spec_tree_payload (with_ids lines ids)"
proof (induction lines arbitrary: w body0)
  case Nil
  then show ?case by (simp add: spec_tree_payload_def with_ids_def)
next
  case (Cons line rest)
  from Cons.prems obtain h w1 where
    step: "tree_body L w1 es rest (body0 @ line_prefix line @ h) = Inr (body, w')"
    by (auto split: sum.splits)
  from Cons.IH [OF step] obtain ids where
    ids: "length ids = length rest"
      "body = (body0 @ line_prefix line @ h) @ spec_tree_payload (with_ids rest ids)"
    by blast
  have "body = body0 @ spec_tree_payload (with_ids (line # rest) (h # ids))"
    using ids(2) by (simp add: spec_tree_payload_def with_ids_def line_prefix_spec)
  with ids(1) show ?case
    by (intro exI [of _ "h # ids"]) simp
qed

lemma sorted_lines:
  assumes "distinct (map fst entries)"
  shows "sorted_wrt (<) (map Name (sort_key Name (tree_lines entries)))"
proof -
  have "distinct (map Name (tree_lines entries))"
    using assms by (simp add: Name_tree_lines)
  then have "distinct (map Name (sort_key Name (tree_lines entries)))"
    by (simp add: distinct_map)
  then show ?thesis by (simp add: strict_sorted_iff)
qed

lemma ModePerm_mask: "ModePerm = mask 9"
  by (simp add: ModePerm_def mask_eq_exp_minus_1)

lemma bit_ModeDir: "bit ModeDir n \<longleftrightarrow> n = 31"
  unfolding ModeDir_def bit_push_bit_iff bit_1_iff by (auto simp: possible_bit_word)

lemma bit_ModeSymlink: "bit ModeSymlink n \<longleftrightarrow> n = 27"
  unfolding ModeSymlink_def bit_push_bit_iff bit_1_iff by (auto simp: possible_bit_word)

lemma bit_ModePerm: "bit ModePerm n \<longleftrightarrow> n < 9"
  unfolding ModePerm_mask bit_mask_iff by (auto simp: possible_bit_word)

lemma word_zeroI: "(\<And>n. \<not> bit (w :: 32 word) n) \<Longrightarrow> w = 0"
  by (simp add: bit_eq_iff)

lemma word_nonzero_bit: "bit (w :: 32 word) n \<Longrightarrow> w \<noteq> 0"
  by auto

lemma IsDir_File [simp]: "Info_IsDir (File p c) = False"
proof -
  have "Info_Mode (File p c) AND ModeDir = 0"
    by (rule word_zeroI) (simp add: bit_and_iff bit_or_iff bit_ModeDir bit_ModePerm)
  then show ?thesis by (simp only: Info_IsDir_def simp_thms)
qed

lemma IsDir_Dir [simp]: "Info_IsDir (Dir p es) = True"
proof -
  have "bit (Info_Mode (Dir p es) AND ModeDir) 31"
    by (simp add: bit_and_iff bit_or_iff bit_ModeDir)
  then show ?thesis
    unfolding Info_IsDir_def by (simp only: word_nonzero_bit simp_thms)
qed

lemma IsDir_Symlink [simp]: "Info_IsDir (Symlink t) = False"
proof -
  have "Info_Mode (Symlink t) AND ModeDir = 0"
    by (rule word_zeroI)
      (auto simp add: bit_and_iff bit_or_iff bit_ModeDir bit_ModePerm bit_ModeSymlink)
  then show ?thesis by (simp only: Info_IsDir_def simp_thms)
qed

lemma not_symlink_File: "Info_Mode (File p c) AND ModeSymlink = 0"
  by (rule word_zeroI) (simp add: bit_and_iff bit_or_iff bit_ModePerm bit_ModeSymlink)

lemma not_symlink_Dir: "Info_Mode (Dir p es) AND ModeSymlink = 0"
  by (rule word_zeroI)
    (auto simp add: bit_and_iff bit_or_iff bit_ModePerm bit_ModeSymlink bit_ModeDir)

lemma symlink_Symlink: "Info_Mode (Symlink t) AND ModeSymlink \<noteq> 0"
proof -
  have "bit (Info_Mode (Symlink t) AND ModeSymlink) 27"
    by (simp add: bit_and_iff bit_or_iff bit_ModeSymlink)
  then show ?thesis
    by (rule word_nonzero_bit)
qed

lemma Perm_File_odd: "(Perm (Info_Mode (File p c)) mod 2 \<noteq> 0) = bit p 0"
proof -
  have "Perm (Info_Mode (File p c)) = p AND mask 9"
    by (simp add: Perm_def ModePerm_mask)
  moreover have "odd (p AND mask 9) = odd p"
    by (simp add: even_and_iff even_mask_iff)
  moreover have "(w mod 2 \<noteq> 0) = odd w" for w :: "32 word"
    by (simp add: even_iff_mod_2_eq_zero)
  ultimately show ?thesis
    by (simp only: bit_0)
qed

lemma entry_mode_File_eq:
  "entry_mode (File p c) = (if bit p 0 then 100755 else 100644)"
  unfolding entry_mode_def
  by (simp only: not_symlink_File Perm_File_odd IsDir_File simp_thms if_True if_False)

lemma entry_mode_Dir: "entry_mode (Dir p es) = 40000"
  unfolding entry_mode_def by (simp only: not_symlink_Dir IsDir_Dir simp_thms if_True if_False)

lemma entry_mode_Symlink: "entry_mode (Symlink t) = 120000"
  unfolding entry_mode_def by (simp only: symlink_Symlink simp_thms if_True if_False)

section \<open>The id of a blob\<close>

text \<open>
  C1.  For a file whose contents are the payload \<open>P\<close>, \<open>WriteBlob\<close> returns as the
  object id the digest of the canonical encoding \<^verbatim>\<open>"blob <n>" NUL P\<close>, where \<open>n\<close> is
  the number of bytes of \<open>P\<close>; for the six bytes \<^verbatim>\<open>hello\n\<close> the canonical bytes are
  \<^verbatim>\<open>"blob 6" NUL "hello\n"\<close>, thirteen bytes.  The digest has 20 bytes, and no
  regular file is in the way of the directory of the object.
\<close>

theorem WriteBlob_id:
  assumes "\<forall>b. length (sha1_Sum L b) = 20"
    and "files w (object_dir (EncodeToString (sha1_Sum L (spec_encode ''blob'' P)))) = None"
  shows "(\<exists>w'. WriteBlob L w (Some (File perm P)) = Inr (sha1_Sum L (spec_encode ''blob'' P), w'))
       \<and> spec_encode ''blob'' ''hello\<newline>'' = ''blob 6'' @ [CHR 0x00] @ ''hello\<newline>''
       \<and> length (spec_encode ''blob'' ''hello\<newline>'') = 13"
proof -
  let ?enc = "spec_encode ''blob'' P"
  let ?name = "EncodeToString (sha1_Sum L ?enc)"
  have n: "2 \<le> length ?name"
    using assms(1) by (simp add: length_EncodeToString)
  have "WriteBlob L w (Some (File perm P)) =
          (case WriteObject L w ?name ?enc of Inl e \<Rightarrow> Inl e | Inr w' \<Rightarrow> Inr (sha1_Sum L ?enc, w'))"
    by (simp add: WriteBlob_def GetSha_def spec_encode_def NULL_SEP_def Let_def split: sum.splits)
  then have "\<exists>w'. WriteBlob L w (Some (File perm P)) = Inr (sha1_Sum L ?enc, w')"
    by (simp add: WriteObject_eq [OF n assms(2)])
  moreover have "spec_encode ''blob'' ''hello\<newline>'' = ''blob 6'' @ [CHR 0x00] @ ''hello\<newline>''"
    by (simp add: spec_encode_def FormatInt_6)
  ultimately show ?thesis by simp
qed

theorem WriteBlob_id_witness:
  "\<exists>w'. WriteBlob example_lib empty_world (Some (File 420 ''hello\<newline>''))
         = Inr (sha1_Sum example_lib (''blob 6'' @ [CHR 0x00] @ ''hello\<newline>''), w')"
proof -
  have 2: "files empty_world (object_dir (EncodeToString
             (sha1_Sum example_lib (spec_encode ''blob'' ''hello\<newline>'')))) = None"
    by (simp add: empty_world_def)
  from WriteBlob_id [OF example_lib_length 2, of 420]
  have a: "\<exists>w'. WriteBlob example_lib empty_world (Some (File 420 ''hello\<newline>''))
              = Inr (sha1_Sum example_lib (spec_encode ''blob'' ''hello\<newline>''), w')"
    and b: "spec_encode ''blob'' ''hello\<newline>'' = ''blob 6'' @ [CHR 0x00] @ ''hello\<newline>''"
    by blast+
  show ?thesis using a unfolding b .
qed

section \<open>Reading back what was stored\<close>

text \<open>
  C2.  An object that is put and then read by \<open>CatFile\<close> under the id that the
  write returned gives back the payload, for each of the three kinds: the bytes
  after the first NUL of the decompressed object are the payload that was
  stored.  \<open>WriteBlob\<close>, \<open>CommitTree\<close> and \<open>WriteTree\<close> store through the same put.
  The digest has 20 bytes, decompressing what was compressed gives it back, no
  regular file is in the way of the directory of the object, and no other
  contents are kept under the id already.  \<open>CatFile\<close> returns no kind.
\<close>

theorem put_get_roundtrip:
  assumes "\<forall>b. length (sha1_Sum L b) = 20"
    and "\<forall>b. zlib_Read L (zlib_Write L b) = Some b"
    and "kind \<in> {''blob'', ''tree'', ''commit''}"
    and "files w (object_dir (EncodeToString (sha1_Sum L (spec_encode kind P)))) = None"
    and "files w (object_path (EncodeToString (sha1_Sum L (spec_encode kind P))))
           \<in> {None, Some (zlib_Write L (spec_encode kind P))}"
  shows "(\<exists>w'. spec_put L w kind P = Inr (sha1_Sum L (spec_encode kind P), w')
             \<and> CatFile L w' (EncodeToString (sha1_Sum L (spec_encode kind P))) = Inr P)
       \<and> WriteBlob L w (Some (File perm P)) = spec_put L w ''blob'' P
       \<and> CommitTree L w t p m = spec_put L w ''commit'' (commit_body (clock w) t p m)
       \<and> WriteTree L w (Some (Dir perm entries)) =
            (case tree_body L w entries (sort_key Name (tree_lines entries)) [] of
               Inl e \<Rightarrow> Inl e
             | Inr (body, w1) \<Rightarrow> spec_put L w1 ''tree'' body)"
proof -
  have "CHR 0x00 \<notin> set kind"
    using assms(3) by auto
  then show ?thesis
    using spec_put_get [OF assms(1) assms(2) _ assms(4) assms(5)]
    by (simp only: WriteBlob_File CommitTree_put WriteTree_put simp_thms)
qed

theorem put_get_roundtrip_witness:
  "\<exists>w'. WriteBlob example_lib empty_world (Some (File 420 ''hello\<newline>''))
           = Inr (sha1_Sum example_lib (spec_encode ''blob'' ''hello\<newline>''), w')
      \<and> CatFile example_lib w'
           (EncodeToString (sha1_Sum example_lib (spec_encode ''blob'' ''hello\<newline>'')))
           = Inr ''hello\<newline>''"
proof -
  have k: "''blob'' \<in> {''blob'', ''tree'', ''commit''}" by simp
  have d: "files empty_world (object_dir (EncodeToString
             (sha1_Sum example_lib (spec_encode ''blob'' ''hello\<newline>'')))) = None"
    by (simp add: empty_world_def)
  have f: "files empty_world (object_path (EncodeToString
             (sha1_Sum example_lib (spec_encode ''blob'' ''hello\<newline>''))))
           \<in> {None, Some (zlib_Write example_lib (spec_encode ''blob'' ''hello\<newline>''))}"
    by (simp add: empty_world_def)
  from put_get_roundtrip [OF example_lib_length example_lib_zlib k d f, of 420]
  show ?thesis by metis
qed

section \<open>Writing an object twice\<close>

text \<open>
  C3.  A write that succeeded, made again, succeeds and leaves the world as the
  first write left it, whatever contents the second write carries; a write under
  a name whose object file exists changes nothing; \<open>WriteBlob\<close> and \<open>CommitTree\<close>
  called a second time return the same id as the first time and the same world.
\<close>

theorem WriteObject_idempotent:
  "(WriteObject L w name contents = Inr w1 \<longrightarrow> WriteObject L w1 name contents' = Inr w1)
 \<and> (WriteObject L w name contents = Inr w1 \<and> files w (object_path name) = Some old \<longrightarrow> w1 = w)
 \<and> (WriteBlob L w at_path = Inr (h, w2) \<longrightarrow> WriteBlob L w2 at_path = Inr (h, w2))
 \<and> (CommitTree L w t p m = Inr (h', w3) \<longrightarrow> CommitTree L w3 t p m = Inr (h', w3))"
proof -
  have 1: "WriteObject L w1 name contents' = Inr w1" if "WriteObject L w name contents = Inr w1"
    for w w1 name contents contents'
    using that
    by (auto simp: WriteObject_def Let_def os_MkdirAll_def os_OpenFile_excl_def
        split: option.splits os_error.splits if_splits)
  have 2: "w1 = w" if "WriteObject L w name contents = Inr w1" "files w (object_path name) = Some old"
    using that
    by (auto simp: WriteObject_def Let_def os_MkdirAll_def os_OpenFile_excl_def object_path_def
        slice_def len_def split: option.splits os_error.splits if_splits)
  have 3: "WriteBlob L w2 at_path = Inr (h, w2)" if "WriteBlob L w at_path = Inr (h, w2)"
    using that 1
    by (auto simp: WriteBlob_def Let_def split: sum.splits)
  have 4: "CommitTree L w3 t p m = Inr (h', w3)" if "CommitTree L w t p m = Inr (h', w3)"
  proof -
    from that have c: "clock w3 = clock w"
      by (auto simp: CommitTree_def Let_def WriteObject_def split: sum.splits option.splits os_error.splits)
    show ?thesis using that 1
    by (auto simp: CommitTree_def c Let_def split: sum.splits)
  qed
  show ?thesis using 1 2 3 4 by blast
qed

theorem WriteObject_idempotent_witness:
  "\<exists>w1 h w2 h' w3.
      WriteObject example_lib empty_world ''abcd'' ''x'' = Inr w1
    \<and> files w1 (object_path ''abcd'') = Some ''Zx''
    \<and> WriteObject example_lib w1 ''abcd'' ''y'' = Inr w1
    \<and> WriteBlob example_lib empty_world (Some (File 420 ''hi'')) = Inr (h, w2)
    \<and> WriteBlob example_lib w2 (Some (File 420 ''hi'')) = Inr (h, w2)
    \<and> CommitTree example_lib empty_world ''ab'' ''cd'' ''m'' = Inr (h', w3)
    \<and> CommitTree example_lib w3 ''ab'' ''cd'' ''m'' = Inr (h', w3)"
proof -
  have a: "WriteObject example_lib empty_world ''abcd'' ''x''
            = Inr (empty_world\<lparr>files := [object_path ''abcd'' \<mapsto> ''Zx'']\<rparr>)"
    by (simp add: WriteObject_eq object_dir_def empty_world_def example_lib_def)
  have b: "files (empty_world\<lparr>files := [object_path ''abcd'' \<mapsto> ''Zx'']\<rparr>) (object_path ''abcd'')
            = Some ''Zx''"
    by simp
  obtain h w2 where c: "WriteBlob example_lib empty_world (Some (File 420 ''hi'')) = Inr (h, w2)"
    using spec_put_eq [OF example_lib_length, of empty_world "''blob''" "''hi''"]
    by (simp add: WriteBlob_File empty_world_def)
  obtain h' w3 where d: "CommitTree example_lib empty_world ''ab'' ''cd'' ''m'' = Inr (h', w3)"
    using spec_put_eq [OF example_lib_length, of empty_world "''commit''"]
    by (simp add: CommitTree_put empty_world_def)
  from WriteObject_idempotent [of example_lib empty_world "''abcd''" "''x''" _ "''y''" _
      "Some (File 420 ''hi'')" h w2 "''ab''" "''cd''" "''m''" h' w3] a b c d
  show ?thesis by blast
qed

section \<open>The order of the entries of a tree\<close>

text \<open>
  C4.  When the names of a directory differ from each other, \<open>WriteTree\<close> gives
  the same result for every order in which the entries are enumerated; the lines
  it serializes are in strictly ascending byte-wise order of name and name the
  entries other than \<^verbatim>\<open>.git\<close>; and the id it returns is the digest of the
  canonical encoding of the tree whose payload is the entries of these lines in
  that order.
\<close>

theorem WriteTree_sorted:
  assumes "distinct (map fst entries)" and "mset entries' = mset entries"
  shows "WriteTree L w (Some (Dir perm entries')) = WriteTree L w (Some (Dir perm entries))
       \<and> sorted_wrt (<) (map Name (sort_key Name (tree_lines entries)))
       \<and> set (map Name (sort_key Name (tree_lines entries))) = set (map fst entries) - {''.git''}
       \<and> (\<forall>h w'. WriteTree L w (Some (Dir perm entries)) = Inr (h, w') \<longrightarrow>
            (\<exists>ids. length ids = length (tree_lines entries)
                \<and> h = sha1_Sum L (spec_encode ''tree''
                        (spec_tree_payload (with_ids (sort_key Name (tree_lines entries)) ids)))))"
proof -
  have "mset (map fst entries') = mset (map fst entries)"
    using assms(2) by simp
  then have "distinct (map fst entries')"
    using assms(1) mset_eq_imp_distinct_iff by blast
  then have d': "distinct (map Name (tree_lines entries'))"
    by (simp add: Name_tree_lines)
  have "sort_key Name (tree_lines entries') = sort_key Name (tree_lines entries)"
    by (rule sort_key_perm [OF mset_tree_lines [OF assms(2)] d'])
  then have 1: "WriteTree L w (Some (Dir perm entries')) = WriteTree L w (Some (Dir perm entries))"
    by (simp add: tree_body_map_of [OF map_of_perm [OF assms(2) assms(1)]])
  have 3: "set (map Name (sort_key Name (tree_lines entries))) = set (map fst entries) - {''.git''}"
  proof -
    have "set (map Name (sort_key Name (tree_lines entries))) = set (map Name (tree_lines entries))"
      by simp
    also have "\<dots> = set (filter (\<lambda>n. n \<noteq> ''.git'') (map fst entries))"
      by (simp only: Name_tree_lines)
    also have "\<dots> = set (map fst entries) - {''.git''}"
      by auto
    finally show ?thesis .
  qed
  have 4: "\<exists>ids. length ids = length (tree_lines entries)
                \<and> h = sha1_Sum L (spec_encode ''tree''
                        (spec_tree_payload (with_ids (sort_key Name (tree_lines entries)) ids)))"
    if "WriteTree L w (Some (Dir perm entries)) = Inr (h, w')" for h w'
  proof -
    from that have "(case tree_body L w entries (sort_key Name (tree_lines entries)) [] of
               Inl e \<Rightarrow> Inl e
             | Inr (body, w1) \<Rightarrow> spec_put L w1 ''tree'' body) = Inr (h, w')"
      by (simp only: WriteTree_put)
    then obtain body w1 where
      b: "tree_body L w entries (sort_key Name (tree_lines entries)) [] = Inr (body, w1)"
      and h: "h = sha1_Sum L (spec_encode ''tree'' body)"
      by (auto simp: spec_put_def Let_def split: sum.splits)
    from tree_body_payload [OF b] show ?thesis
      using h by auto
  qed
  show ?thesis using 1 sorted_lines [OF assms(1)] 3 4 by blast
qed

section \<open>The mode of a file\<close>

text \<open>
  C6, as the code has it.  A regular file (neither a directory nor a symbolic
  link) gets the mode 100755 exactly when the execute bit of \<^emph>\<open>others\<close> (the
  lowest permission bit) is set, and 100644 otherwise; the execute bits of the
  owner and of the group are not looked at.
\<close>

theorem entry_mode_others_exec:
  "entry_mode (File p c) = (if bit p 0 then 100755 else 100644)"
  by (rule entry_mode_File_eq)

text \<open>
  C6 as stated fails: a file with permissions 0100 (64) has an execute bit set
  (73 is 0111) and gets the mode 100644.
\<close>

theorem entry_mode_owner_exec_counterexample:
  "(64 :: 32 word) AND 73 \<noteq> 0 \<and> entry_mode (File 64 ''x'') = 100644
     \<and> entry_mode (File 64 ''x'') \<noteq> 100755"
  by (simp add: entry_mode_File_eq bit_0)

end
